theory Spec2Isabelle
  imports Main "HOL-Library.Word"
begin

section \<open>Data model\<close>

text \<open>
  The repository has two modules. \<^verbatim>\<open>backend/server.py\<close> is the socket gateway: four
  event handlers, two of which print a line and two of which are \<^verbatim>\<open>pass\<close>.
  \<^verbatim>\<open>backend/ada.py\<close> is the session adapter: the class \<^verbatim>\<open>AdaAgent\<close> with its
  constructor, the asynchronous generator \<^verbatim>\<open>connect\<close> and the coroutine
  \<^verbatim>\<open>send_frame\<close>.

  Everything the code does is an effect on something outside it: standard output and the
  remote endpoint reached through the \<^verbatim>\<open>google.genai\<close> client. The embedding threads
  a \<open>world\<close> through every operation; the object \<^verbatim>\<open>self\<close> is threaded as a record.
\<close>

type_synonym bytes = "8 word list"

type_synonym message = string

type_synonym handle = nat

text \<open>\<^verbatim>\<open>types.Blob(data=..., mime_type=...)\<close> and
  \<^verbatim>\<open>types.LiveClientRealtimeInput(media_chunks=[...])\<close>, as the source builds them.\<close>

datatype blob = Blob (data: bytes) (mime_type: string)

datatype realtime_input = LiveClientRealtimeInput (media_chunks: "blob list")

datatype error = ConnectError | ConnectionClosed

text \<open>
  The remote end of one streaming session.
  \<^item> \<open>Streaming\<close>: entered by \<^verbatim>\<open>async with\<close>, the remote side still sends;
  \<^item> \<open>Ended\<close>: the remote side has closed the stream normally, the iteration stops once the
    buffered messages are consumed;
  \<^item> \<open>Broken\<close>: the connection was lost, the next receive on an empty buffer raises;
  \<^item> \<open>Exited\<close>: the \<^verbatim>\<open>async with\<close> block has been left.
  \<open>rs_client\<close> is the client the session was opened through (\<^verbatim>\<open>genai.Client\<close>, with
  the two arguments the constructor of the adapter gives it), \<open>rs_model\<close> and \<open>rs_config\<close>
  are the keyword arguments of the call that opened the session, \<open>rs_inbox\<close> the messages
  that have arrived and are not yet received,
  \<open>rs_sent\<close> the inputs transmitted through \<^verbatim>\<open>session.send\<close>, oldest first.
\<close>

datatype status = Streaming | Ended | Broken | Exited

record Client =
  api_key :: "string option"
  api_version :: string

record remote_session =
  rs_client :: Client
  rs_model :: string
  rs_config :: "(string \<times> string list) list"
  rs_status :: status
  rs_inbox :: "message list"
  rs_sent :: "realtime_input list"

text \<open>
  The world: \<open>stdout\<close> holds the text of every \<^verbatim>\<open>print\<close> call, oldest first;
  \<open>accepting\<close> says whether the endpoint accepts a new session (it does not on an
  authentication or network failure); \<open>live\<close> holds every session opened so far, a session's
  handle being its position.
\<close>

record world =
  stdout :: "string list"
  accepting :: bool
  live :: "remote_session list"

definition is_open :: "world \<Rightarrow> handle \<Rightarrow> bool" where
  "is_open w h = (h < length (live w) \<and> rs_status (live w ! h) = Streaming)"

definition open_sessions :: "world \<Rightarrow> handle list" where
  "open_sessions w = filter (is_open w) [0 ..< length (live w)]"

section \<open>The socket gateway (backend/server.py)\<close>

text \<open>
  \<^verbatim>\<open>
  @sio.event
  async def connect(sid, environ):
      print(f"Neural Link Established: {sid}")

  @sio.event
  async def disconnect(sid):
      print(f"Neural Link Severed: {sid}")

  @sio.event
  async def vision_frame(sid, data):
      pass

  @sio.event
  async def voice_input(sid, data):
      pass
  \<close>
  The session id is a string; \<^verbatim>\<open>environ\<close> and \<^verbatim>\<open>data\<close> are never inspected, so
  their types are left open (\<open>d\<close> stands for \<^verbatim>\<open>data\<close>). Every handler returns
  \<^verbatim>\<open>None\<close>; its model returns the world.
\<close>

definition connect :: "string \<Rightarrow> 'e \<Rightarrow> world \<Rightarrow> world" where
  "connect sid environ w = w\<lparr>stdout := stdout w @ [''Neural Link Established: '' @ sid]\<rparr>"

definition disconnect :: "string \<Rightarrow> world \<Rightarrow> world" where
  "disconnect sid w = w\<lparr>stdout := stdout w @ [''Neural Link Severed: '' @ sid]\<rparr>"

definition vision_frame :: "string \<Rightarrow> 'd \<Rightarrow> world \<Rightarrow> world" where
  "vision_frame sid d w = w"

definition voice_input :: "string \<Rightarrow> 'd \<Rightarrow> world \<Rightarrow> world" where
  "voice_input sid d w = w"

section \<open>The remote endpoint, as the adapter uses it\<close>

text \<open>
  The adapter calls three operations of the client library, which is not part of the
  repository. Their models record the call and its arguments in the world and nothing more.

  \<^verbatim>\<open>client.aio.live.connect(model=..., config=...)\<close> entered by \<^verbatim>\<open>async with\<close>:
  a new session, handle the next free position, opened with the two arguments; it raises
  when the endpoint does not accept the connection.
\<close>

definition live_connect ::
  "Client \<Rightarrow> string \<Rightarrow> (string \<times> string list) list \<Rightarrow> world
     \<Rightarrow> (error + handle) \<times> world" where
  "live_connect c model cfg w =
     (if accepting w
      then (Inr (length (live w)),
            w\<lparr>live := live w @
               [\<lparr>rs_client = c, rs_model = model, rs_config = cfg, rs_status = Streaming,
                 rs_inbox = [], rs_sent = []\<rparr>]\<rparr>)
      else (Inl ConnectError, w))"

text \<open>Leaving the \<^verbatim>\<open>async with\<close> block closes the session.\<close>

definition session_aexit :: "handle \<Rightarrow> world \<Rightarrow> world" where
  "session_aexit h w =
     (if h < length (live w)
      then w\<lparr>live := (live w)[h := (live w ! h)\<lparr>rs_status := Exited\<rparr>]\<rparr>
      else w)"

text \<open>
  \<^verbatim>\<open>await session.send(input=...)\<close>: the input reaches the remote side when the session
  is open, and the call raises on a session that is not.
\<close>

definition session_send :: "handle \<Rightarrow> realtime_input \<Rightarrow> world \<Rightarrow> (error + unit) \<times> world" where
  "session_send h inp w =
     (if is_open w h
      then (Inr (),
            w\<lparr>live := (live w)[h := (live w ! h)\<lparr>rs_sent := rs_sent (live w ! h) @ [inp]\<rparr>]\<rparr>)
      else (Inl ConnectionClosed, w))"

text \<open>
  One step of \<^verbatim>\<open>async for message in session\<close>. A buffered message is handed over,
  oldest first. On an empty buffer the receive suspends while the session streams
  (\<open>Pending\<close>: the awaiting task stays suspended and the step is taken again once the world
  has changed), ends the iteration when the stream has ended, and raises when the connection
  is broken.
\<close>

datatype 'a outcome = Yield 'a | Pending | StopAsyncIteration | Raise error

definition session_anext :: "handle \<Rightarrow> world \<Rightarrow> message outcome \<times> world" where
  "session_anext h w =
     (if h < length (live w)
      then (case rs_inbox (live w ! h) of
              m # ms \<Rightarrow> (Yield m, w\<lparr>live := (live w)[h := (live w ! h)\<lparr>rs_inbox := ms\<rparr>]\<rparr>)
            | [] \<Rightarrow> (case rs_status (live w ! h) of
                       Streaming \<Rightarrow> (Pending, w)
                     | Ended \<Rightarrow> (StopAsyncIteration, w)
                     | Broken \<Rightarrow> (Raise ConnectionClosed, w)
                     | Exited \<Rightarrow> (StopAsyncIteration, w)))
      else (StopAsyncIteration, w))"

section \<open>The session adapter (backend/ada.py)\<close>

text \<open>
  \<^verbatim>\<open>
  class AdaAgent:
      def __init__(self):
          self.client = genai.Client(api_key=os.getenv("GEMINI_API_KEY"),
                                     http_options={'api_version': 'v1alpha'})
          self.model_id = "gemini-2.0-flash-exp"
          self.session = None
  \<close>
  \<open>session\<close> is \<open>None\<close> or a session object. The test \<^verbatim>\<open>if self.session:\<close> is
  Python truthiness: \<open>None\<close> is false and a session object is true, whatever its handle.
\<close>

record AdaAgent =
  client :: Client
  model_id :: string
  session :: "handle option"

definition AdaAgent_init :: "string option \<Rightarrow> AdaAgent" where
  "AdaAgent_init key =
     \<lparr>client = \<lparr>api_key = key, api_version = ''v1alpha''\<rparr>,
      model_id = ''gemini-2.0-flash-exp'',
      session = None\<rparr>"

text \<open>
  \<^verbatim>\<open>
      async def connect(self):
          config = {"registration_ids": ["vision", "audio"]}
          async with self.client.aio.live.connect(model=self.model_id, config=config) as session:
              self.session = session
              async for message in session:
                  yield message
  \<close>
  Calling \<^verbatim>\<open>connect()\<close> runs nothing: it returns a generator object in its initial
  state. The body runs when the generator is advanced. The generator is \<open>Created\<close> before
  its first advance, \<open>Suspended h\<close> inside the loop over session \<open>h\<close> (at the
  \<^verbatim>\<open>yield\<close>, or awaiting the next message), and \<open>Finished\<close> for good afterwards.
\<close>

datatype gen = Created | Suspended handle | Finished

definition config :: "(string \<times> string list) list" where
  "config = [(''registration_ids'', [''vision'', ''audio''])]"

definition AdaAgent_connect :: "AdaAgent \<Rightarrow> gen" where
  "AdaAgent_connect self = Created"

text \<open>The loop: one receive; a message is yielded, the end of the iteration or an exception
  leaves the \<^verbatim>\<open>async with\<close> block and finishes the generator.\<close>

definition loop_anext ::
  "handle \<Rightarrow> AdaAgent \<Rightarrow> world \<Rightarrow> message outcome \<times> gen \<times> AdaAgent \<times> world" where
  "loop_anext h self w =
     (case session_anext h w of
        (Yield m, w') \<Rightarrow> (Yield m, Suspended h, self, w')
      | (Pending, w') \<Rightarrow> (Pending, Suspended h, self, w')
      | (StopAsyncIteration, w') \<Rightarrow> (StopAsyncIteration, Finished, self, session_aexit h w')
      | (Raise e, w') \<Rightarrow> (Raise e, Finished, self, session_aexit h w'))"

text \<open>The body with the local \<^verbatim>\<open>config\<close> as a parameter, and the body as written.\<close>

fun connect_body ::
  "(string \<times> string list) list \<Rightarrow> gen \<Rightarrow> AdaAgent \<Rightarrow> world
     \<Rightarrow> message outcome \<times> gen \<times> AdaAgent \<times> world" where
  "connect_body cfg Created self w =
     (case live_connect (client self) (model_id self) cfg w of
        (Inl e, w') \<Rightarrow> (Raise e, Finished, self, w')
      | (Inr h, w') \<Rightarrow> loop_anext h (self\<lparr>session := Some h\<rparr>) w')"
| "connect_body cfg (Suspended h) self w = loop_anext h self w"
| "connect_body cfg Finished self w = (StopAsyncIteration, Finished, self, w)"

definition AdaAgent_connect_anext ::
  "gen \<Rightarrow> AdaAgent \<Rightarrow> world \<Rightarrow> message outcome \<times> gen \<times> AdaAgent \<times> world" where
  "AdaAgent_connect_anext g self w = connect_body config g self w"

text \<open>\<^verbatim>\<open>aclose()\<close> on the generator: a generator suspended inside the
  \<^verbatim>\<open>async with\<close> block leaves it, which closes its session.\<close>

fun AdaAgent_connect_aclose :: "gen \<Rightarrow> world \<Rightarrow> gen \<times> world" where
  "AdaAgent_connect_aclose Created w = (Finished, w)"
| "AdaAgent_connect_aclose (Suspended h) w = (Finished, session_aexit h w)"
| "AdaAgent_connect_aclose Finished w = (Finished, w)"

text \<open>
  \<^verbatim>\<open>
      async def send_frame(self, frame_data):
          if self.session:
              await self.session.send(input=types.LiveClientRealtimeInput(
                  media_chunks=[types.Blob(data=frame_data, mime_type="image/jpeg")]
              ))
  \<close>
  The result is \<open>Inr ()\<close> for a normal return and \<open>Inl e\<close> for an exception that
  leaves the coroutine; \<^verbatim>\<open>self\<close> is returned with the world.
\<close>

definition AdaAgent_send_frame ::
  "AdaAgent \<Rightarrow> bytes \<Rightarrow> world \<Rightarrow> (error + unit) \<times> AdaAgent \<times> world" where
  "AdaAgent_send_frame self frame_data w =
     (case session self of
        None \<Rightarrow> (Inr (), self, w)
      | Some h \<Rightarrow>
          (case session_send h
                  (LiveClientRealtimeInput [Blob frame_data ''image/jpeg'']) w of
             (r, w') \<Rightarrow> (r, self, w')))"

section \<open>Runs of the adapter\<close>

text \<open>
  One adapter instance, the generator objects its \<^verbatim>\<open>connect()\<close> calls have returned
  (a generator is named by its position), and the world. An event is an operation of the
  caller on the adapter or on one of its generators, or a move of the remote side:
  a message arrives on a session, the remote side ends the stream, the connection breaks.
  An operation on a generator that does not exist is no operation.
\<close>

record system =
  agent :: AdaAgent
  gens :: "gen list"
  env :: world

datatype event =
    Connect
  | Anext nat
  | Aclose nat
  | SendFrame bytes
  | Deliver handle message
  | RemoteEnd handle
  | RemoteBreak handle

definition deliver :: "handle \<Rightarrow> message \<Rightarrow> world \<Rightarrow> world" where
  "deliver h m w =
     (if is_open w h
      then w\<lparr>live := (live w)[h := (live w ! h)\<lparr>rs_inbox := rs_inbox (live w ! h) @ [m]\<rparr>]\<rparr>
      else w)"

definition remote_stop :: "status \<Rightarrow> handle \<Rightarrow> world \<Rightarrow> world" where
  "remote_stop st h w =
     (if is_open w h
      then w\<lparr>live := (live w)[h := (live w ! h)\<lparr>rs_status := st\<rparr>]\<rparr>
      else w)"

fun step :: "event \<Rightarrow> system \<Rightarrow> system" where
  "step Connect s = s\<lparr>gens := gens s @ [AdaAgent_connect (agent s)]\<rparr>"
| "step (Anext i) s =
     (if i < length (gens s)
      then (case AdaAgent_connect_anext (gens s ! i) (agent s) (env s) of
              (out, g, a, w) \<Rightarrow> \<lparr>agent = a, gens = (gens s)[i := g], env = w\<rparr>)
      else s)"
| "step (Aclose i) s =
     (if i < length (gens s)
      then (case AdaAgent_connect_aclose (gens s ! i) (env s) of
              (g, w) \<Rightarrow> s\<lparr>gens := (gens s)[i := g], env := w\<rparr>)
      else s)"
| "step (SendFrame frame_data) s =
     (case AdaAgent_send_frame (agent s) frame_data (env s) of
        (r, a, w) \<Rightarrow> s\<lparr>agent := a, env := w\<rparr>)"
| "step (Deliver h m) s = s\<lparr>env := deliver h m (env s)\<rparr>"
| "step (RemoteEnd h) s = s\<lparr>env := remote_stop Ended h (env s)\<rparr>"
| "step (RemoteBreak h) s = s\<lparr>env := remote_stop Broken h (env s)\<rparr>"

fun exec :: "event list \<Rightarrow> system \<Rightarrow> system" where
  "exec [] s = s"
| "exec (e # es) s = exec es (step e s)"

text \<open>The process at start: a freshly constructed adapter, no generator, nothing printed,
  no session.\<close>

definition boot :: "string option \<Rightarrow> bool \<Rightarrow> system" where
  "boot key acc =
     \<lparr>agent = AdaAgent_init key, gens = [],
      env = \<lparr>stdout = [], accepting = acc, live = []\<rparr>\<rparr>"



text \<open>What has been transmitted: the media chunks sent on one session, and on all of them.\<close>

definition transmitted :: "remote_session \<Rightarrow> blob list" where
  "transmitted r = concat (map media_chunks (rs_sent r))"

definition all_transmitted :: "world \<Rightarrow> blob list" where
  "all_transmitted w = concat (map transmitted (live w))"

text \<open>Sample inputs: the first bytes of a JPEG file, and the process after one
  \<^verbatim>\<open>connect()\<close> call whose generator has been advanced once.\<close>

definition jpeg_head :: bytes where
  "jpeg_head = [0xFF, 0xD8]"

definition linked :: system where
  "linked = exec [Connect, Anext 0] (boot None True)"






section \<open>Auxiliary facts\<close>

lemma linked_eq:
  "linked =
     \<lparr>agent = \<lparr>client = \<lparr>api_key = None, api_version = ''v1alpha''\<rparr>,
                model_id = ''gemini-2.0-flash-exp'', session = Some 0\<rparr>,
      gens = [Suspended 0],
      env = \<lparr>stdout = [], accepting = True,
              live = [\<lparr>rs_client = \<lparr>api_key = None, api_version = ''v1alpha''\<rparr>,
                       rs_model = ''gemini-2.0-flash-exp'',
                       rs_config = [(''registration_ids'', [''vision'', ''audio''])],
                       rs_status = Streaming, rs_inbox = [], rs_sent = []\<rparr>]\<rparr>\<rparr>"
  by (simp add: linked_def boot_def AdaAgent_init_def AdaAgent_connect_def
      AdaAgent_connect_anext_def config_def live_connect_def loop_anext_def session_anext_def)

lemma concat_map_update:
  assumes "h < length xs"
  shows "length (concat (map f (xs[h := x]))) + length (f (xs ! h))
           = length (concat (map f xs)) + length (f x)"
proof -
  have whole: "xs = take h xs @ (xs ! h) # drop (Suc h) xs"
    using assms by (rule id_take_nth_drop)
  have upd: "xs[h := x] = take h xs @ x # drop (Suc h) xs"
    using assms by (rule upd_conv_take_nth_drop)
  have "length (concat (map f xs))
          = length (concat (map f (take h xs @ (xs ! h) # drop (Suc h) xs)))"
    using whole by simp
  then show ?thesis unfolding upd by simp
qed

lemma session_send_open:
  "is_open w h \<Longrightarrow>
     session_send h inp w =
       (Inr (), w\<lparr>live := (live w)[h := (live w ! h)\<lparr>rs_sent := rs_sent (live w ! h) @ [inp]\<rparr>]\<rparr>)"
  by (simp add: session_send_def)

lemma open_sessions_live:
  "live w' = live w \<Longrightarrow> open_sessions w' = open_sessions w"
  by (simp add: open_sessions_def is_open_def cong: filter_cong)

subsection \<open>One advance of the generator\<close>











subsection \<open>Every session not yet left is held by a generator inside its loop\<close>














subsection \<open>Counting generators and sessions along a run\<close>










subsection \<open>The inbound buffer\<close>










subsection \<open>A session that is no longer open\<close>






section \<open>The gateway handlers\<close>

text \<open>
  C7. For every session id, the connect handler has one effect, one more printed line
  (\<open>Neural Link Established: \<close> followed by the session id), and the disconnect handler has
  one effect, one more printed line (\<open>Neural Link Severed: \<close> followed by the session id).
  Neither touches a session of the remote endpoint (no cleanup, nothing transmitted) or any
  other part of the world.
\<close>

theorem gateway_connect_disconnect_only_log:
  "connect sid environ w = w\<lparr>stdout := stdout w @ [''Neural Link Established: '' @ sid]\<rparr>
   \<and> length (stdout (connect sid environ w)) = Suc (length (stdout w))
   \<and> live (connect sid environ w) = live w
   \<and> accepting (connect sid environ w) = accepting w
   \<and> disconnect sid w = w\<lparr>stdout := stdout w @ [''Neural Link Severed: '' @ sid]\<rparr>
   \<and> length (stdout (disconnect sid w)) = Suc (length (stdout w))
   \<and> live (disconnect sid w) = live w
   \<and> accepting (disconnect sid w) = accepting w"
  by (simp add: connect_def disconnect_def)

text \<open>
  C4. For every session id and every payload, \<open>vision_frame\<close> and \<open>voice_input\<close> leave the
  world as it is: nothing is printed, no session is opened, changed or closed, nothing is
  transmitted. The result is the same for any two payloads and any two session ids, so
  neither argument is read.
\<close>

theorem gateway_frame_handlers_noop:
  "vision_frame sid d w = w
   \<and> voice_input sid d w = w
   \<and> vision_frame sid d w = vision_frame sid' d' w
   \<and> voice_input sid d w = voice_input sid' d' w
   \<and> all_transmitted (vision_frame sid d w) = all_transmitted w
   \<and> all_transmitted (voice_input sid d w) = all_transmitted w"
  by (simp add: vision_frame_def voice_input_def)

text \<open>
  C8. A gateway connect event followed at once by the disconnect event of the same client
  opens no session and leaves every session as it was: the sessions open afterwards are
  the sessions open before, and from a process start without sessions none is open.
\<close>

theorem gateway_connect_disconnect_no_leak:
  "live (disconnect sid (connect sid environ w)) = live w
   \<and> open_sessions (disconnect sid (connect sid environ w)) = open_sessions w
   \<and> open_sessions (disconnect sid (connect sid environ
        \<lparr>stdout = [], accepting = acc, live = []\<rparr>)) = []"
proof -
  have same: "live (disconnect sid (connect sid environ v)) = live v" for v
    by (simp add: connect_def disconnect_def)
  have none: "open_sessions \<lparr>stdout = [], accepting = acc, live = []\<rparr> = []"
    by (simp add: open_sessions_def)
  show ?thesis
    using same [of w] open_sessions_live [OF same [of w]]
      open_sessions_live [OF same [of "\<lparr>stdout = [], accepting = acc, live = []\<rparr>"]] none
    by simp
qed

section \<open>Sending a frame\<close>

text \<open>
  C1. For every payload, when the adapter holds a session and that session is open,
  \<open>send_frame\<close> returns normally and transmits exactly one media chunk: the chunks
  transmitted on the session grow by the one chunk whose data is the payload, unchanged,
  and whose MIME type is \<open>image/jpeg\<close>; the number of chunks transmitted on all sessions
  grows by one; nothing else in the world changes.
\<close>

theorem send_frame_open_transmits_one_jpeg_chunk:
  assumes "session self = Some h" and "is_open w h"
  shows "fst (AdaAgent_send_frame self frame_data w) = Inr ()
     \<and> transmitted (live (snd (snd (AdaAgent_send_frame self frame_data w))) ! h)
         = transmitted (live w ! h) @ [Blob frame_data ''image/jpeg'']
     \<and> length (all_transmitted (snd (snd (AdaAgent_send_frame self frame_data w))))
         = Suc (length (all_transmitted w))
     \<and> snd (snd (AdaAgent_send_frame self frame_data w))
         = w\<lparr>live := (live w)[h := (live w ! h)\<lparr>rs_sent := rs_sent (live w ! h) @
               [LiveClientRealtimeInput [Blob frame_data ''image/jpeg'']]\<rparr>]\<rparr>"
proof -
  let ?inp = "LiveClientRealtimeInput [Blob frame_data ''image/jpeg'']"
  let ?r = "(live w ! h)\<lparr>rs_sent := rs_sent (live w ! h) @ [?inp]\<rparr>"
  let ?w = "w\<lparr>live := (live w)[h := ?r]\<rparr>"
  have run: "AdaAgent_send_frame self frame_data w = (Inr (), self, ?w)"
    using assms by (simp add: AdaAgent_send_frame_def session_send_open)
  have h: "h < length (live w)"
    using assms(2) by (simp add: is_open_def)
  have t: "transmitted ?r = transmitted (live w ! h) @ [Blob frame_data ''image/jpeg'']"
    by (simp add: transmitted_def)
  have "length (all_transmitted ?w) + length (transmitted (live w ! h))
          = length (all_transmitted w) + length (transmitted ?r)"
    using concat_map_update [OF h, of transmitted ?r] by (simp add: all_transmitted_def)
  then have n: "length (all_transmitted ?w) = Suc (length (all_transmitted w))"
    using t by simp
  show ?thesis using run h t n by simp
qed

theorem send_frame_open_witness:
  "session (agent linked) = Some 0 \<and> is_open (env linked) 0
   \<and> fst (AdaAgent_send_frame (agent linked) jpeg_head (env linked)) = Inr ()
   \<and> transmitted (live (snd (snd (AdaAgent_send_frame (agent linked) jpeg_head (env linked)))) ! 0)
       = [Blob [0xFF, 0xD8] ''image/jpeg'']
   \<and> length (all_transmitted (snd (snd (AdaAgent_send_frame (agent linked) jpeg_head (env linked)))))
       = 1"
proof -
  have s: "session (agent linked) = Some 0"
    by (simp add: linked_eq)
  have o: "is_open (env linked) 0"
    by (simp add: linked_eq is_open_def)
  have t: "transmitted (live (env linked) ! 0) = []"
    by (simp add: linked_eq transmitted_def)
  have a: "all_transmitted (env linked) = []"
    by (simp add: linked_eq all_transmitted_def transmitted_def)
  have "fst (AdaAgent_send_frame (agent linked) jpeg_head (env linked)) = Inr ()
     \<and> transmitted (live (snd (snd (AdaAgent_send_frame (agent linked) jpeg_head (env linked)))) ! 0)
         = transmitted (live (env linked) ! 0) @ [Blob jpeg_head ''image/jpeg'']
     \<and> length (all_transmitted (snd (snd (AdaAgent_send_frame (agent linked) jpeg_head (env linked)))))
         = Suc (length (all_transmitted (env linked)))"
    using send_frame_open_transmits_one_jpeg_chunk [OF s o, of jpeg_head] by blast
  then show ?thesis
    using s o t a by (simp add: jpeg_head_def)
qed

text \<open>
  C2. For every payload, when the adapter holds no session (\<open>session\<close> is \<open>None\<close>),
  \<open>send_frame\<close> returns normally, no exception reaches the caller, and the world is
  unchanged: nothing is transmitted.
\<close>

theorem send_frame_no_session_noop:
  "session self = None \<Longrightarrow>
     AdaAgent_send_frame self frame_data w = (Inr (), self, w)
     \<and> all_transmitted (snd (snd (AdaAgent_send_frame self frame_data w))) = all_transmitted w"
  by (simp add: AdaAgent_send_frame_def)

theorem send_frame_no_session_witness:
  "session (AdaAgent_init None) = None
   \<and> AdaAgent_send_frame (AdaAgent_init None) jpeg_head (env linked)
       = (Inr (), AdaAgent_init None, env linked)"
proof -
  have n: "session (AdaAgent_init None) = None"
    by (simp add: AdaAgent_init_def)
  show ?thesis
    using send_frame_no_session_noop [OF n, of jpeg_head "env linked"] n by simp
qed

text \<open>
  C10. For every call of \<open>send_frame\<close>, with or without a session, with the session open
  or not, the adapter after the call is the adapter before it: \<open>client\<close>, \<open>model_id\<close> and
  \<open>session\<close> hold the same values.
\<close>

theorem send_frame_keeps_adapter:
  "fst (snd (AdaAgent_send_frame self frame_data w)) = self
   \<and> client (fst (snd (AdaAgent_send_frame self frame_data w))) = client self
   \<and> model_id (fst (snd (AdaAgent_send_frame self frame_data w))) = model_id self
   \<and> session (fst (snd (AdaAgent_send_frame self frame_data w))) = session self"
  by (simp add: AdaAgent_send_frame_def split: option.split prod.split)

section \<open>Opening sessions\<close>







section \<open>The inbound message stream\<close>



section \<open>The session field\<close>



end
